theory Spec2Isabelle
  imports Complex_Main "HOL-Library.Sublist"
begin

section \<open>Text\<close>

text \<open>
  A Python \<open>str\<close> is modelled by a \<^typ>\<open>string\<close>: the UTF-8 bytes of the text. The
  model is exact on ASCII text. A byte above 127 (part of a non-ASCII character, such as
  the Korean keywords of the source) is taken to be part of a letter without case: it is
  a word character, it is not white space, and \<open>lower\<close> leaves it alone.
\<close>

definition is_upper :: "char \<Rightarrow> bool" where
  "is_upper c = (let n = of_char c :: nat in 65 \<le> n \<and> n \<le> 90)"

text \<open>\<open>'A'..'Z'\<close> are the codes 65..90; the lower-case letter is 32 higher, which sets
  the bit of weight 32 (the sixth argument of \<^const>\<open>Char\<close>).\<close>

fun lower_char :: "char \<Rightarrow> char" where
  "lower_char (Char b0 b1 b2 b3 b4 b5 b6 b7) =
     (if is_upper (Char b0 b1 b2 b3 b4 b5 b6 b7) then Char b0 b1 b2 b3 b4 True b6 b7
      else Char b0 b1 b2 b3 b4 b5 b6 b7)"

definition lower :: "string \<Rightarrow> string" where
  "lower s = map lower_char s"

text \<open>White space as \<open>str.strip()\<close> and the pattern \<open>\s\<close> see it: tab, line feed,
  vertical tab, form feed, carriage return (9..13), the four separators 28..31, and the
  space (32).\<close>

definition is_space :: "char \<Rightarrow> bool" where
  "is_space c = (let n = of_char c :: nat in (9 \<le> n \<and> n \<le> 13) \<or> (28 \<le> n \<and> n \<le> 32))"

text \<open>The pattern \<open>\w\<close>: a digit, a letter or the underscore.\<close>

definition is_word :: "char \<Rightarrow> bool" where
  "is_word c = (let n = of_char c :: nat in
     (48 \<le> n \<and> n \<le> 57) \<or> (65 \<le> n \<and> n \<le> 90) \<or> n = 95 \<or> (97 \<le> n \<and> n \<le> 122)
     \<or> 128 \<le> n)"

definition strip :: "string \<Rightarrow> string" where
  "strip s = rev (dropWhile is_space (rev (dropWhile is_space s)))"

text \<open>\<open>w in s\<close> on two strings: \<open>w\<close> occurs in \<open>s\<close> as a contiguous piece.\<close>

fun starts_with :: "string \<Rightarrow> string \<Rightarrow> bool" where
  "starts_with [] s = True"
| "starts_with (p # w) [] = False"
| "starts_with (p # w) (c # s) = (if p = c then starts_with w s else False)"

fun contains :: "string \<Rightarrow> string \<Rightarrow> bool" where
  "contains w [] = (w = [])"
| "contains w (c # s) = (if starts_with w (c # s) then True else contains w s)"

section \<open>Regular expressions\<close>

text \<open>
  The five patterns of \<open>_has_semantic_error\<close> are sequences of four kinds of items: a
  literal text, a character class repeated at least \<open>n\<close> times (\<open>\s*\<close>, \<open>.*\<close>,
  \<open>[!=<>]+\<close>, \<open>9{8,}\<close>), the capturing group \<open>(\w+)\<close> (a repeated class whose match is
  remembered) and the back reference \<open>\1\<close>. \<open>re.search\<close> backtracks over every way to
  match, so it finds a match exactly when one exists; \<open>rx_match\<close> tries every length of
  every repetition. All comparisons ignore case, as under \<open>re.IGNORECASE\<close>.
\<close>

datatype cclass = Word | Space | Dot | OneOf string

fun in_class :: "cclass \<Rightarrow> char \<Rightarrow> bool" where
  "in_class Word c = is_word c"
| "in_class Space c = is_space c"
| "in_class Dot c = (c \<noteq> CHR 0x0A)"
| "in_class (OneOf cs) c = (lower_char c \<in> set (map lower_char cs))"

datatype rx_item = Lit string | Rep cclass nat | Group cclass nat | Backref

text \<open>\<open>lit_prefix w s\<close>: \<open>s\<close> starts with \<open>w\<close>, up to case.\<close>

fun lit_prefix :: "string \<Rightarrow> string \<Rightarrow> bool" where
  "lit_prefix [] s = True"
| "lit_prefix (p # w) [] = False"
| "lit_prefix (p # w) (c # s) = (if lower_char p = lower_char c then lit_prefix w s else False)"

text \<open>\<open>rep_splits cl n s\<close>: every way to cut \<open>s\<close> into at least \<open>n\<close> leading characters
  of the class \<open>cl\<close> and the rest.\<close>

fun rep_splits :: "cclass \<Rightarrow> nat \<Rightarrow> string \<Rightarrow> (string \<times> string) list" where
  "rep_splits cl n [] = (if n = 0 then [([], [])] else [])"
| "rep_splits cl n (c # s) =
     (if n = 0 then [([], c # s)] else []) @
     (if in_class cl c then map (\<lambda>(u, v). (c # u, v)) (rep_splits cl (n - 1) s) else [])"

text \<open>\<open>rx_match items g s\<close>: the items match a prefix of \<open>s\<close>, where \<open>g\<close> is the text
  the group has captured.\<close>

fun rx_match :: "rx_item list \<Rightarrow> string \<Rightarrow> string \<Rightarrow> bool" where
  "rx_match [] g s = True"
| "rx_match (Lit w # items) g s =
     (if lit_prefix w s then rx_match items g (drop (length w) s) else False)"
| "rx_match (Rep cl n # items) g s =
     list_ex (\<lambda>(u, v). rx_match items g v) (rep_splits cl n s)"
| "rx_match (Group cl n # items) g s =
     list_ex (\<lambda>(u, v). rx_match items u v) (rep_splits cl n s)"
| "rx_match (Backref # items) g s =
     (if lit_prefix g s then rx_match items g (drop (length g) s) else False)"

fun re_search :: "rx_item list \<Rightarrow> string \<Rightarrow> bool" where
  "re_search p [] = rx_match p [] []"
| "re_search p (c # s) = (if rx_match p [] (c # s) then True else re_search p s)"

section \<open>Values\<close>

text \<open>
  The values of a results mapping (\<open>Dict[str, Any]\<close>): \<open>None\<close>, booleans, integers,
  floats, strings, lists and mappings with string keys. A mapping is the list of its
  items in insertion order; its keys are distinct. A finite float is modelled by the real
  number it denotes, a double (\<open>is_double\<close> below); \<open>nan\<close> and the two infinities are
  values of their own. The subtraction of the tolerance test rounds as the machine does;
  the rates and the consistency score, which are only compared with thresholds, are
  computed in exact arithmetic. Integers are of the size \<open>numpy\<close> and the conversion to
  float accept.
\<close>

datatype pyfloat = Finite real | NaN | PosInf | NegInf

datatype pyval =
    PNone
  | PBool bool
  | PInt int
  | PFloat pyfloat
  | PStr string
  | PList "pyval list"
  | PDict "(string \<times> pyval) list"

type_synonym pydict = "(string \<times> pyval) list"

text \<open>\<open>number_of v\<close> is the numeric value of \<open>v\<close> when \<open>isinstance(v, (int, float))\<close>
  holds (\<open>bool\<close> is a subclass of \<open>int\<close>), and \<open>None\<close> otherwise.\<close>

fun number_of :: "pyval \<Rightarrow> pyfloat option" where
  "number_of (PBool b) = Some (Finite (if b then 1 else 0))"
| "number_of (PInt i) = Some (Finite (real_of_int i))"
| "number_of (PFloat x) = Some x"
| "number_of v = None"

definition is_number :: "pyval \<Rightarrow> bool" where
  "is_number v = (number_of v \<noteq> None)"

text \<open>\<open>x < c\<close> and \<open>x > c\<close> for a number \<open>x\<close> and a finite constant \<open>c\<close>: every
  comparison with \<open>nan\<close> is false.\<close>

fun num_lt :: "pyfloat \<Rightarrow> real \<Rightarrow> bool" where
  "num_lt (Finite x) c = (x < c)"
| "num_lt NegInf c = True"
| "num_lt PosInf c = False"
| "num_lt NaN c = False"

fun num_gt :: "pyfloat \<Rightarrow> real \<Rightarrow> bool" where
  "num_gt (Finite x) c = (x > c)"
| "num_gt PosInf c = True"
| "num_gt NegInf c = False"
| "num_gt NaN c = False"

text \<open>\<open>isinstance(value, (int, float)) and value < c\<close>, and the same with \<open>>\<close>.\<close>

definition number_below :: "pyval \<Rightarrow> real \<Rightarrow> bool" where
  "number_below value c = (case number_of value of None \<Rightarrow> False | Some x \<Rightarrow> num_lt x c)"

definition number_above :: "pyval \<Rightarrow> real \<Rightarrow> bool" where
  "number_above value c = (case number_of value of None \<Rightarrow> False | Some x \<Rightarrow> num_gt x c)"

subsection \<open>Rounding to a double\<close>

text \<open>
  A double is a real \<open>m * 2 ^ e\<close> with an integer \<open>m\<close> of at most 53 bits and
  \<open>e \<ge> -1074\<close>, smaller in absolute value than \<open>2 ^ 1024\<close>. Every operation on floats
  returns the double nearest to the exact result, the one with the even \<open>m\<close> when two are
  equally near, and an infinity when that would be \<open>2 ^ 1024\<close> or more.
  \<open>rne\<close> rounds a real to the nearest integer, ties to even; \<open>expo a\<close> is the exponent
  \<open>k\<close> with \<open>2 ^ k \<le> a < 2 ^ (k + 1)\<close>, and -1022 for the subnormal numbers below;
  \<open>round_real\<close> rounds to a multiple of \<open>2 ^ (k - 52)\<close>.
\<close>

definition rne :: "real \<Rightarrow> int" where
  "rne x = (let f = \<lfloor>x\<rfloor>; d = x - of_int f in
            if d < 1/2 then f else if d > 1/2 then f + 1 else if even f then f else f + 1)"

fun halvings :: "nat \<Rightarrow> real \<Rightarrow> nat" where
  "halvings n a = (if n = 0 \<or> a < 2 then 0 else Suc (halvings (n - 1) (a / 2)))"

fun doublings :: "nat \<Rightarrow> real \<Rightarrow> nat" where
  "doublings n a = (if n = 0 \<or> 1 \<le> a then 0 else Suc (doublings (n - 1) (2 * a)))"

definition expo :: "real \<Rightarrow> int" where
  "expo a = (if 1 \<le> a then int (halvings 1100 a) else - int (doublings 1022 a))"

definition round_real :: "real \<Rightarrow> real" where
  "round_real x = (if x = 0 then 0
     else let e = expo \<bar>x\<bar> - 52 in of_int (rne (x / 2 powi e)) * 2 powi e)"

definition round_double :: "real \<Rightarrow> pyfloat" where
  "round_double x =
     (let r = round_real x in
      if 2 ^ 1024 \<le> r then PosInf else if r \<le> - (2 ^ 1024) then NegInf else Finite r)"


text \<open>\<open>float(v)\<close> of a number: an integer is rounded to the nearest double. (For an
  integer too large for a double Python raises \<open>OverflowError\<close>; such integers are
  outside the values modelled, see the beginning of this section.)\<close>

fun float_of :: "pyval \<Rightarrow> pyfloat" where
  "float_of (PBool b) = Finite (if b then 1 else 0)"
| "float_of (PInt i) = round_double (real_of_int i)"
| "float_of (PFloat x) = x"
| "float_of v = NaN"

text \<open>\<open>x - y\<close> on floats.\<close>

fun float_sub :: "pyfloat \<Rightarrow> pyfloat \<Rightarrow> pyfloat" where
  "float_sub (Finite x) (Finite y) = round_double (x - y)"
| "float_sub NaN y = NaN"
| "float_sub x NaN = NaN"
| "float_sub PosInf PosInf = NaN"
| "float_sub NegInf NegInf = NaN"
| "float_sub PosInf y = PosInf"
| "float_sub NegInf y = NegInf"
| "float_sub (Finite x) PosInf = NegInf"
| "float_sub (Finite x) NegInf = PosInf"

fun float_abs :: "pyfloat \<Rightarrow> pyfloat" where
  "float_abs (Finite x) = Finite \<bar>x\<bar>"
| "float_abs NaN = NaN"
| "float_abs PosInf = PosInf"
| "float_abs NegInf = PosInf"

text \<open>\<open>x <= c\<close> for a float \<open>x\<close> and a finite \<open>c\<close>.\<close>

fun num_le :: "pyfloat \<Rightarrow> real \<Rightarrow> bool" where
  "num_le (Finite x) c = (x \<le> c)"
| "num_le NegInf c = True"
| "num_le PosInf c = False"
| "num_le NaN c = False"

text \<open>The integer a value is when it is a \<open>bool\<close> or an \<open>int\<close>.\<close>

fun int_of :: "pyval \<Rightarrow> int option" where
  "int_of (PBool b) = Some (if b then 1 else 0)"
| "int_of (PInt i) = Some i"
| "int_of v = None"

text \<open>
  \<open>abs(calculated - expected) <= tolerance\<close> on two numbers. The difference of two
  integers is an integer, exact, and is compared with the tolerance as it is. With a float
  on either side the other side is converted to a float, and the difference is rounded.
\<close>

definition abs_diff_le :: "pyval \<Rightarrow> pyval \<Rightarrow> real \<Rightarrow> bool" where
  "abs_diff_le calculated expected tolerance =
     (case (int_of calculated, int_of expected) of
        (Some i, Some j) \<Rightarrow> real_of_int \<bar>i - j\<bar> \<le> tolerance
      | _ \<Rightarrow> num_le (float_abs (float_sub (float_of calculated) (float_of expected))) tolerance)"

text \<open>The default of the parameter \<open>tolerance\<close>: the double that the literal \<open>0.01\<close>
  denotes.\<close>

definition default_tolerance :: real where
  "default_tolerance = round_real 0.01"

text \<open>\<open>x == y\<close> on numbers.\<close>

fun num_eq :: "pyfloat \<Rightarrow> pyfloat \<Rightarrow> bool" where
  "num_eq (Finite x) (Finite y) = (x = y)"
| "num_eq PosInf PosInf = True"
| "num_eq NegInf NegInf = True"
| "num_eq x y = False"

text \<open>
  \<open>a == b\<close> on values: numbers by their numeric value whatever their types, strings and
  \<open>None\<close> by identity of content, lists item by item, mappings key by key whatever the
  order of insertion; values of different kinds are unequal. (Python compares the items
  of a list by identity first, so a list holding one \<open>nan\<close> object equals itself; here
  \<open>nan\<close> is never equal to anything.)
\<close>

fun py_eq :: "pyval \<Rightarrow> pyval \<Rightarrow> bool" where
  "py_eq (PList xs) (PList ys) = list_all2 py_eq xs ys"
| "py_eq (PDict d) (PDict e) =
     (length d = length e \<and>
      list_all (\<lambda>(k, v). case map_of e k of None \<Rightarrow> False | Some w \<Rightarrow> py_eq v w) d)"
| "py_eq (PStr s) (PStr t) = (s = t)"
| "py_eq PNone PNone = True"
| "py_eq a b =
     (case number_of a of None \<Rightarrow> False
      | Some x \<Rightarrow> (case number_of b of None \<Rightarrow> False | Some y \<Rightarrow> num_eq x y))"

datatype pytype = TNone | TBool | TInt | TFloat | TStr | TList | TDict

fun type_of :: "pyval \<Rightarrow> pytype" where
  "type_of PNone = TNone"
| "type_of (PBool b) = TBool"
| "type_of (PInt i) = TInt"
| "type_of (PFloat x) = TFloat"
| "type_of (PStr s) = TStr"
| "type_of (PList xs) = TList"
| "type_of (PDict d) = TDict"

section \<open>The text of a value\<close>

text \<open>
  \<open>str\<close> of a mapping is its \<open>repr\<close>: \<open>{'key': value, ...}\<close>. The decimal digits of a
  float are computed by the Python runtime from the bits of the float and are not part of
  this program: the function that writes a finite float is a parameter, \<open>fr\<close>, of the text
  and of everything that reads it, and every theorem holds whatever it is.
\<close>

type_synonym float_repr = "real \<Rightarrow> string"

fun show_nat :: "nat \<Rightarrow> string" where
  "show_nat n =
     (if n < 10 then [''0123456789'' ! n]
      else show_nat (n div 10) @ [''0123456789'' ! (n mod 10)])"

definition show_int :: "int \<Rightarrow> string" where
  "show_int i = (if i < 0 then ''-'' @ show_nat (nat (- i)) else show_nat (nat i))"

text \<open>\<open>repr\<close> of a string: in single quotes, or in double quotes when the string has a
  single quote and no double quote; the backslash, the quote and the control characters
  are escaped. (\<open>CHR 0x27\<close> is the single quote, \<open>CHR 0x22\<close> the double quote and
  \<open>CHR 0x5C\<close> the backslash.)\<close>

definition repr_char :: "char \<Rightarrow> char \<Rightarrow> string" where
  "repr_char quote c =
     (let n = of_char c :: nat in
      if c = CHR 0x5C \<or> c = quote then [CHR 0x5C, c]
      else if c = CHR 0x09 then [CHR 0x5C, CHR ''t'']
      else if c = CHR 0x0A then [CHR 0x5C, CHR ''n'']
      else if c = CHR 0x0D then [CHR 0x5C, CHR ''r'']
      else if n < 32 \<or> n = 127
        then [CHR 0x5C, CHR ''x'', ''0123456789abcdef'' ! (n div 16), ''0123456789abcdef'' ! (n mod 16)]
      else [c])"

definition repr_str :: "string \<Rightarrow> string" where
  "repr_str s =
     (let quote = (if CHR 0x27 \<in> set s \<and> CHR 0x22 \<notin> set s then CHR 0x22 else CHR 0x27)
      in [quote] @ concat (map (repr_char quote) s) @ [quote])"

fun join :: "string \<Rightarrow> string list \<Rightarrow> string" where
  "join sep [] = []"
| "join sep [x] = x"
| "join sep (x # y # xs) = x @ sep @ join sep (y # xs)"

fun py_repr :: "float_repr \<Rightarrow> pyval \<Rightarrow> string" where
  "py_repr fr PNone = ''None''"
| "py_repr fr (PBool b) = (if b then ''True'' else ''False'')"
| "py_repr fr (PInt i) = show_int i"
| "py_repr fr (PFloat (Finite x)) = fr x"
| "py_repr fr (PFloat NaN) = ''nan''"
| "py_repr fr (PFloat PosInf) = ''inf''"
| "py_repr fr (PFloat NegInf) = ''-inf''"
| "py_repr fr (PStr s) = repr_str s"
| "py_repr fr (PList xs) = ''['' @ join '', '' (map (py_repr fr) xs) @ '']''"
| "py_repr fr (PDict d) =
     ''{'' @ join '', '' (map (\<lambda>(k, v). repr_str k @ '': '' @ py_repr fr v) d) @ ''}''"

definition py_str :: "float_repr \<Rightarrow> pyval \<Rightarrow> string" where
  "py_str fr v = (case v of PStr s \<Rightarrow> s | _ \<Rightarrow> py_repr fr v)"

section \<open>The evaluator\<close>

text \<open>\<open>UniversalAnalysisResult\<close>; the time stamp is the one \<open>__post_init__\<close> has set.\<close>

record analysis_result =
  analysis_query :: string
  mongodb_queries :: "string list"
  calculation_results :: pydict
  execution_logs :: "pydict list"
  timestamp :: string

record evaluation_metrics =
  semantic_error_rate :: real
  execution_success_rate :: real
  empty_result_rate :: real
  accuracy_rate :: real
  overall_pass :: bool

text \<open>The evaluator holds its thresholds, a mapping from names to bounds.\<close>

record evaluator =
  thresholds :: "(string \<times> real) list"

text \<open>The errors: \<open>KeyError\<close> of a mapping read at a key it does not have,
  \<open>AttributeError\<close> of a method called on an object that does not have it,
  \<open>TypeError\<close> of \<open>len\<close> applied to an object without length, and
  \<open>InvalidInputError\<close>, the kind the specification names.\<close>

datatype py_error = KeyError string | AttributeError | TypeError | InvalidInputError

definition default_thresholds :: "(string \<times> real) list" where
  "default_thresholds =
     [(''semantic_error'', 0.1), (''execution_success'', 0.8),
      (''empty_result'', 0.2), (''accuracy'', 0.9)]"

text \<open>\<open>__init__\<close>: \<open>thresholds or {...}\<close> takes the defaults for \<open>None\<close> and for the
  empty mapping, which is falsy.\<close>

definition init :: "(string \<times> real) list option \<Rightarrow> evaluator" where
  "init ths =
     (case ths of
        None \<Rightarrow> \<lparr>thresholds = default_thresholds\<rparr>
      | Some t \<Rightarrow> \<lparr>thresholds = (if t = [] then default_thresholds else t)\<rparr>)"

text \<open>The loop \<open>for x in xs: if P(x): n += 1\<close>, from \<open>n = 0\<close>.\<close>

definition count_where :: "('a \<Rightarrow> bool) \<Rightarrow> 'a list \<Rightarrow> nat" where
  "count_where P xs = fold (\<lambda>x n. if P x then n + 1 else n) xs 0"

subsection \<open>Semantic errors\<close>

text \<open>The patterns, in the order of the source:
  \<^verbatim>\<open>(\w+)\s*[!=<>]+\s*\1\<close>, \<^verbatim>\<open>count.*==.*0.*AND.*exists\<close>, \<^verbatim>\<open>>\s*9{8,}\<close>,
  \<^verbatim>\<open>\$match.*\{\s*\}\<close> and \<^verbatim>\<open>\$group.*_id.*_id\<close>.\<close>

definition logical_error_patterns :: "rx_item list list" where
  "logical_error_patterns =
    [ [Group Word 1, Rep Space 0, Rep (OneOf ''!=<>'') 1, Rep Space 0, Backref],
      [Lit ''count'', Rep Dot 0, Lit ''=='', Rep Dot 0, Lit ''0'', Rep Dot 0, Lit ''AND'',
       Rep Dot 0, Lit ''exists''],
      [Lit ''>'', Rep Space 0, Rep (OneOf ''9'') 8],
      [Lit ''$match'', Rep Dot 0, Lit ''{'', Rep Space 0, Lit ''}''],
      [Lit ''$group'', Rep Dot 0, Lit ''_id'', Rep Dot 0, Lit ''_id''] ]"

text \<open>The rate words of \<open>_check_result_query_mismatch\<close>; the first two are the UTF-8
  bytes of the Korean words for "ratio" (U+BE44 U+C728) and "rate" (U+C728).\<close>

definition rate_words :: "string list" where
  "rate_words =
     [[CHR 0xEB, CHR 0xB9, CHR 0x84, CHR 0xEC, CHR 0x9C, CHR 0xA8],
      [CHR 0xEC, CHR 0x9C, CHR 0xA8], ''percent'', ''rate'']"

definition check_result_query_mismatch :: "string \<Rightarrow> analysis_result \<Rightarrow> bool" where
  "check_result_query_mismatch query ar =
     (if contains ''count'' (lower query) \<and>
         list_ex (\<lambda>(key, value). number_below value 0) (calculation_results ar)
      then True
      else if list_ex (\<lambda>word. contains word (lower (analysis_query ar))) rate_words \<and>
         list_ex (\<lambda>(key, value). number_above value 100) (calculation_results ar)
      then True
      else False)"

definition has_semantic_error :: "string \<Rightarrow> analysis_result \<Rightarrow> bool" where
  "has_semantic_error query ar =
     (if list_ex (\<lambda>pattern. re_search pattern query) logical_error_patterns then True
      else if check_result_query_mismatch query ar then True
      else False)"

definition calculate_semantic_error_rate :: "analysis_result \<Rightarrow> real" where
  "calculate_semantic_error_rate ar =
     (if mongodb_queries ar = [] then 0
      else
        let semantic_errors = count_where (\<lambda>query. has_semantic_error query ar) (mongodb_queries ar);
            total_queries = length (mongodb_queries ar)
        in if total_queries > 0 then real semantic_errors / real total_queries else 0)"

subsection \<open>Execution success\<close>

text \<open>\<open>d.get(key)\<close>: the value at the key, \<open>None\<close> when the mapping has no such key.\<close>

definition dict_get :: "pydict \<Rightarrow> string \<Rightarrow> pyval" where
  "dict_get d key = (case map_of d key of None \<Rightarrow> PNone | Some v \<Rightarrow> v)"

definition log_successful :: "pydict \<Rightarrow> bool" where
  "log_successful entry =
     (py_eq (dict_get entry ''status'') (PStr ''success'') \<or> dict_get entry ''error'' = PNone)"

definition calculate_execution_success_rate :: "analysis_result \<Rightarrow> real" where
  "calculate_execution_success_rate ar =
     (if execution_logs ar = [] then 1
      else
        let successful_executions = count_where log_successful (execution_logs ar);
            total_executions = length (execution_logs ar)
        in if total_executions > 0 then real successful_executions / real total_executions
           else 1)"

subsection \<open>Empty results\<close>

definition error_words :: "string list" where
  "error_words = [''error'', ''exception'', ''failed'', ''null'']"

text \<open>The checks of \<open>_is_empty_or_invalid_result\<close>, by the kind of the value: each
  \<open>isinstance\<close> test of the source selects one of the cases below.\<close>

fun is_empty_or_invalid_result :: "pyval \<Rightarrow> bool" where
  "is_empty_or_invalid_result PNone = True"
| "is_empty_or_invalid_result (PList xs) = (length xs = 0)"
| "is_empty_or_invalid_result (PDict d) = (length d = 0)"
| "is_empty_or_invalid_result (PStr s) =
     (if strip s = [] then True
      else list_ex (\<lambda>word. contains word (lower s)) error_words)"
| "is_empty_or_invalid_result (PFloat x) = (x = NaN \<or> x = PosInf \<or> x = NegInf)"
| "is_empty_or_invalid_result (PInt i) = False"
| "is_empty_or_invalid_result (PBool b) = False"

definition calculate_empty_result_rate :: "analysis_result \<Rightarrow> real" where
  "calculate_empty_result_rate ar =
     (if calculation_results ar = [] then 1
      else
        let empty_results =
              count_where (\<lambda>(key, value). is_empty_or_invalid_result value) (calculation_results ar);
            total_results = length (calculation_results ar)
        in if total_results > 0 then real empty_results / real total_results else 1)"

subsection \<open>Accuracy\<close>

definition is_list_or_dict :: "pyval \<Rightarrow> bool" where
  "is_list_or_dict v = (type_of v = TList \<or> type_of v = TDict)"

definition values_match :: "pyval \<Rightarrow> pyval \<Rightarrow> real \<Rightarrow> bool" where
  "values_match calculated expected tolerance =
     (if type_of calculated \<noteq> type_of expected \<and> \<not> (is_number calculated \<and> is_number expected)
      then False
      else if is_number calculated \<and> is_number expected
      then abs_diff_le calculated expected tolerance
      else if type_of calculated = TStr \<and> type_of expected = TStr
      then (case (calculated, expected) of
              (PStr c, PStr e) \<Rightarrow> lower (strip c) = lower (strip e)
            | _ \<Rightarrow> False)
      else if is_list_or_dict calculated \<and> is_list_or_dict expected
      then py_eq calculated expected
      else py_eq calculated expected)"

definition consistency_words :: "string list" where
  "consistency_words =
     [''rate'', ''ratio'', [CHR 0xEB, CHR 0xB9, CHR 0x84, CHR 0xEC, CHR 0x9C, CHR 0xA8],
      [CHR 0xEC, CHR 0x9C, CHR 0xA8]]"

text \<open>The two loops of \<open>_calculate_consistency_score\<close> pass the score along.\<close>

definition calculate_consistency_score :: "float_repr \<Rightarrow> analysis_result \<Rightarrow> real" where
  "calculate_consistency_score fr ar =
     (let numeric_results = filter is_number (map snd (calculation_results ar));
          score1 =
            (if numeric_results \<noteq> [] then
               fold (\<lambda>value score.
                      let score' =
                            (if number_below value 0 \<and>
                                contains ''count'' (py_str fr (PDict (calculation_results ar)))
                             then score - 0.2 else score)
                      in if number_above value 10000000 then score' - 0.1 else score')
                    numeric_results 1
             else 1);
          score2 =
            fold (\<lambda>(key, value) score.
                   if list_ex (\<lambda>word. contains word (lower key)) consistency_words
                   then (if number_below value 0 \<or> number_above value 100
                         then score - 0.3 else score)
                   else score)
                 (calculation_results ar) score1
      in max 0 score2)"

text \<open>The loop of \<open>_calculate_accuracy_rate\<close> passes the two counters
  \<open>(correct_results, total_comparisons)\<close> along.\<close>

definition calculate_accuracy_rate ::
    "float_repr \<Rightarrow> analysis_result \<Rightarrow> pydict option \<Rightarrow> real" where
  "calculate_accuracy_rate fr ar ground_truth =
     (case ground_truth of
        None \<Rightarrow> calculate_consistency_score fr ar
      | Some gt \<Rightarrow>
          let (correct_results, total_comparisons) =
                fold (\<lambda>(key, calculated_value) (correct, compared).
                       case map_of gt key of
                         None \<Rightarrow> (correct, compared)
                       | Some expected_value \<Rightarrow>
                           ((if values_match calculated_value expected_value default_tolerance
                             then correct + 1 else correct), compared + 1))
                     (calculation_results ar) (0::nat, 0::nat)
          in if total_comparisons > 0 then real correct_results / real total_comparisons
             else 1)"

subsection \<open>The verdict\<close>

text \<open>Reading a threshold the mapping does not have raises \<open>KeyError\<close>; the four
  thresholds are read in the order of the source.\<close>

definition threshold :: "evaluator \<Rightarrow> string \<Rightarrow> py_error + real" where
  "threshold self key =
     (case map_of (thresholds self) key of None \<Rightarrow> Inl (KeyError key) | Some t \<Rightarrow> Inr t)"

definition determine_overall_pass ::
    "evaluator \<Rightarrow> real \<Rightarrow> real \<Rightarrow> real \<Rightarrow> real \<Rightarrow> py_error + bool" where
  "determine_overall_pass self semantic_error_rate' execution_success_rate'
       empty_result_rate' accuracy_rate' =
     (case threshold self ''semantic_error'' of Inl e \<Rightarrow> Inl e | Inr t1 \<Rightarrow>
      let semantic_pass = (semantic_error_rate' \<le> t1) in
      case threshold self ''execution_success'' of Inl e \<Rightarrow> Inl e | Inr t2 \<Rightarrow>
      let execution_pass = (execution_success_rate' \<ge> t2) in
      case threshold self ''empty_result'' of Inl e \<Rightarrow> Inl e | Inr t3 \<Rightarrow>
      let empty_pass = (empty_result_rate' \<le> t3) in
      case threshold self ''accuracy'' of Inl e \<Rightarrow> Inl e | Inr t4 \<Rightarrow>
      let accuracy_pass = (accuracy_rate' \<ge> t4) in
      Inr (semantic_pass \<and> execution_pass \<and> empty_pass \<and> accuracy_pass))"

definition evaluate ::
    "float_repr \<Rightarrow> evaluator \<Rightarrow> analysis_result \<Rightarrow> pydict option \<Rightarrow> py_error + evaluation_metrics"
  where
  "evaluate fr self ar ground_truth =
     (let s = calculate_semantic_error_rate ar;
          x = calculate_execution_success_rate ar;
          e = calculate_empty_result_rate ar;
          a = calculate_accuracy_rate fr ar ground_truth
      in case determine_overall_pass self s x e a of
           Inl err \<Rightarrow> Inl err
         | Inr pass \<Rightarrow>
             Inr \<lparr>semantic_error_rate = s, execution_success_rate = x,
                  empty_result_rate = e, accuracy_rate = a, overall_pass = pass\<rparr>)"

text \<open>\<open>quick_evaluate\<close>; \<open>now\<close> is the time stamp the new record gets.\<close>

definition quick_evaluate ::
    "float_repr \<Rightarrow> string \<Rightarrow> string \<Rightarrow> string list \<Rightarrow> pydict \<Rightarrow> pydict list option \<Rightarrow>
     pydict option \<Rightarrow> (string \<times> real) list option \<Rightarrow> py_error + evaluation_metrics" where
  "quick_evaluate fr now analysis_query' mongodb_queries' calculation_results'
       execution_logs' ground_truth custom_thresholds =
     evaluate fr (init custom_thresholds)
       \<lparr>analysis_query = analysis_query', mongodb_queries = mongodb_queries',
        calculation_results = calculation_results',
        execution_logs = (case execution_logs' of None \<Rightarrow> [] | Some logs \<Rightarrow> logs),
        timestamp = now\<rparr>
       ground_truth"

subsection \<open>Results that are not a mapping\<close>

text \<open>
  Nothing checks that \<open>calculation_results\<close> is a mapping: the record holds whatever
  object it was given. The functions below are the ones above with \<open>results\<close> any
  value, read as the source reads it: \<open>results.items()\<close> and \<open>results.values()\<close>
  (\<open>py_items\<close>) raise \<open>AttributeError\<close> on a value that is not a mapping, \<open>not results\<close>
  is the truth value of the object, and \<open>len(results)\<close> raises \<open>TypeError\<close> on
  \<open>None\<close> and on numbers. The other fields are those of the record \<open>ar\<close>.
\<close>

definition py_items :: "pyval \<Rightarrow> py_error + pydict" where
  "py_items results = (case results of PDict d \<Rightarrow> Inr d | _ \<Rightarrow> Inl AttributeError)"

fun py_truthy :: "pyval \<Rightarrow> bool" where
  "py_truthy PNone = False"
| "py_truthy (PBool b) = b"
| "py_truthy (PInt i) = (i \<noteq> 0)"
| "py_truthy (PFloat x) = (x \<noteq> Finite 0)"
| "py_truthy (PStr s) = (s \<noteq> [])"
| "py_truthy (PList xs) = (xs \<noteq> [])"
| "py_truthy (PDict d) = (d \<noteq> [])"

definition py_has_len :: "pyval \<Rightarrow> bool" where
  "py_has_len v = (type_of v = TStr \<or> type_of v = TList \<or> type_of v = TDict)"

text \<open>\<open>_has_semantic_error\<close>: a query that matches a pattern is flagged before the
  results are looked at; \<open>_check_result_query_mismatch\<close> reads \<open>results.items()\<close> when
  the query has \<open>count\<close> or the question has a rate word, and returns \<open>False\<close> without
  reading the results otherwise.\<close>

definition has_semantic_error_any ::
    "string \<Rightarrow> analysis_result \<Rightarrow> pyval \<Rightarrow> py_error + bool" where
  "has_semantic_error_any query ar results =
     (if list_ex (\<lambda>pattern. re_search pattern query) logical_error_patterns then Inr True
      else if contains ''count'' (lower query) \<or>
              list_ex (\<lambda>word. contains word (lower (analysis_query ar))) rate_words
      then (case py_items results of
              Inl err \<Rightarrow> Inl err
            | Inr d \<Rightarrow> Inr (check_result_query_mismatch query (ar\<lparr>calculation_results := d\<rparr>)))
      else Inr False)"

text \<open>The counting loop, stopped by the first error.\<close>

fun count_where_any :: "('a \<Rightarrow> py_error + bool) \<Rightarrow> 'a list \<Rightarrow> py_error + nat" where
  "count_where_any P [] = Inr 0"
| "count_where_any P (x # xs) =
     (case P x of
        Inl err \<Rightarrow> Inl err
      | Inr b \<Rightarrow>
          (case count_where_any P xs of
             Inl err \<Rightarrow> Inl err
           | Inr n \<Rightarrow> Inr (if b then n + 1 else n)))"

definition calculate_semantic_error_rate_any ::
    "analysis_result \<Rightarrow> pyval \<Rightarrow> py_error + real" where
  "calculate_semantic_error_rate_any ar results =
     (if mongodb_queries ar = [] then Inr 0
      else case count_where_any (\<lambda>query. has_semantic_error_any query ar results)
                  (mongodb_queries ar) of
             Inl err \<Rightarrow> Inl err
           | Inr semantic_errors \<Rightarrow>
               Inr (real semantic_errors / real (length (mongodb_queries ar))))"

definition calculate_empty_result_rate_any ::
    "analysis_result \<Rightarrow> pyval \<Rightarrow> py_error + real" where
  "calculate_empty_result_rate_any ar results =
     (if \<not> py_truthy results then Inr 1
      else if \<not> py_has_len results then Inl TypeError
      else case py_items results of
             Inl err \<Rightarrow> Inl err
           | Inr d \<Rightarrow> Inr (calculate_empty_result_rate (ar\<lparr>calculation_results := d\<rparr>)))"

text \<open>Both paths of \<open>_calculate_accuracy_rate\<close> start by reading the results as a
  mapping (\<open>.values()\<close> without reference, \<open>.items()\<close> with one).\<close>

definition calculate_accuracy_rate_any ::
    "float_repr \<Rightarrow> analysis_result \<Rightarrow> pyval \<Rightarrow> pydict option \<Rightarrow> py_error + real" where
  "calculate_accuracy_rate_any fr ar results ground_truth =
     (case py_items results of
        Inl err \<Rightarrow> Inl err
      | Inr d \<Rightarrow> Inr (calculate_accuracy_rate fr (ar\<lparr>calculation_results := d\<rparr>) ground_truth))"

definition evaluate_any ::
    "float_repr \<Rightarrow> evaluator \<Rightarrow> analysis_result \<Rightarrow> pyval \<Rightarrow> pydict option \<Rightarrow>
     py_error + evaluation_metrics" where
  "evaluate_any fr self ar results ground_truth =
     (case calculate_semantic_error_rate_any ar results of Inl err \<Rightarrow> Inl err | Inr s \<Rightarrow>
      let x = calculate_execution_success_rate ar in
      case calculate_empty_result_rate_any ar results of Inl err \<Rightarrow> Inl err | Inr e \<Rightarrow>
      case calculate_accuracy_rate_any fr ar results ground_truth of Inl err \<Rightarrow> Inl err | Inr a \<Rightarrow>
      case determine_overall_pass self s x e a of
        Inl err \<Rightarrow> Inl err
      | Inr pass \<Rightarrow>
          Inr \<lparr>semantic_error_rate = s, execution_success_rate = x,
               empty_result_rate = e, accuracy_rate = a, overall_pass = pass\<rparr>)"

subsection \<open>The values of the comparison\<close>




section \<open>Rounding is monotone and odd\<close>







declare halvings.simps [simp del] doublings.simps [simp del]















lemma scale_pos: "0 < (2::real) powi e"
  by simp








section \<open>Counting loops and the range of the rates\<close>

lemma fold_count_acc:
  "fold (\<lambda>x n. if P x then n + 1 else n) xs (k::nat) = k + length (filter P xs)"
  by (induction xs arbitrary: k) simp_all

lemma count_where_filter: "count_where P xs = length (filter P xs)"
  by (simp add: count_where_def fold_count_acc)

lemma count_where_le: "count_where P xs \<le> length xs"
  by (simp add: count_where_filter)

lemma count_where_all: "list_all P xs \<Longrightarrow> count_where P xs = length xs"
  by (simp add: count_where_filter list_all_iff)

lemma ratio_bounds:
  "a \<le> b \<Longrightarrow> 0 \<le> real a / real b \<and> real a / real b \<le> 1"
  by (cases "b = 0") (simp_all add: divide_le_eq_1)

lemma semantic_error_rate_bounds:
  "0 \<le> calculate_semantic_error_rate ar \<and> calculate_semantic_error_rate ar \<le> 1"
  by (simp add: calculate_semantic_error_rate_def Let_def divide_le_eq_1 count_where_le)

lemma execution_success_rate_bounds:
  "0 \<le> calculate_execution_success_rate ar \<and> calculate_execution_success_rate ar \<le> 1"
  by (simp add: calculate_execution_success_rate_def Let_def divide_le_eq_1 count_where_le)

lemma empty_result_rate_bounds:
  "0 \<le> calculate_empty_result_rate ar \<and> calculate_empty_result_rate ar \<le> 1"
  by (simp add: calculate_empty_result_rate_def Let_def divide_le_eq_1 count_where_le)

lemma fold_nonincreasing:
  fixes s :: real
  assumes "\<And>x t. f x t \<le> t"
  shows "fold f xs s \<le> s"
proof (induction xs arbitrary: s)
  case Nil
  show ?case by simp
next
  case (Cons x xs)
  have "fold f xs (f x s) \<le> f x s" by (rule Cons.IH)
  also have "f x s \<le> s" by (rule assms)
  finally show ?case by simp
qed

lemma consistency_score_bounds:
  "0 \<le> calculate_consistency_score fr ar \<and> calculate_consistency_score fr ar \<le> 1"
proof -
  let ?f = "\<lambda>value score.
              let score' =
                    (if number_below value 0 \<and>
                        contains ''count'' (py_str fr (PDict (calculation_results ar)))
                     then score - 0.2 else score)
              in if number_above value 10000000 then score' - 0.1 else score'"
  let ?g = "\<lambda>(key, value) score.
              if list_ex (\<lambda>word. contains word (lower key)) consistency_words
              then (if number_below value 0 \<or> number_above value 100
                    then score - 0.3 else score)
              else score"
  have f: "?f x t \<le> t" for x and t :: real by (simp add: Let_def)
  have g: "?g x t \<le> t" for x and t :: real by (cases x) simp
  let ?nums = "filter is_number (map snd (calculation_results ar))"
  let ?s1 = "if ?nums \<noteq> [] then fold ?f ?nums 1 else (1::real)"
  have s1: "?s1 \<le> 1" using fold_nonincreasing [of ?f ?nums 1, OF f] by simp
  have "fold ?g (calculation_results ar) ?s1 \<le> ?s1"
    by (rule fold_nonincreasing [OF g])
  with s1 have "fold ?g (calculation_results ar) ?s1 \<le> 1" by linarith
  then show ?thesis
    unfolding calculate_consistency_score_def Let_def by simp
qed


lemma fold_pair_counts:
  "fold (\<lambda>(key, calculated_value) (correct, compared).
           case map_of gt key of
             None \<Rightarrow> (correct, compared)
           | Some expected_value \<Rightarrow>
               ((if values_match calculated_value expected_value tol
                 then correct + 1 else correct), compared + 1))
        xs (c0, t0)
   = (c0 + length (filter (\<lambda>(k, v). values_match v (the (map_of gt k)) tol)
                     (filter (\<lambda>(k, v). map_of gt k \<noteq> None) xs)),
      t0 + length (filter (\<lambda>(k, v). map_of gt k \<noteq> None) xs))"
  by (induction xs arbitrary: c0 t0) (auto split: option.splits)

lemma accuracy_rate_reference:
  "calculate_accuracy_rate fr ar (Some gt) =
     (let compared = filter (\<lambda>(k, v). map_of gt k \<noteq> None) (calculation_results ar);
          matches = filter (\<lambda>(k, v). values_match v (the (map_of gt k)) default_tolerance) compared
      in if compared = [] then 1 else real (length matches) / real (length compared))"
  by (simp add: calculate_accuracy_rate_def fold_pair_counts Let_def)

lemma accuracy_rate_bounds:
  "0 \<le> calculate_accuracy_rate fr ar gt \<and> calculate_accuracy_rate fr ar gt \<le> 1"
proof (cases gt)
  case None
  then show ?thesis
    using consistency_score_bounds [of fr ar] by (simp add: calculate_accuracy_rate_def)
next
  case (Some g)
  let ?compared = "filter (\<lambda>(k, v). map_of g k \<noteq> None) (calculation_results ar)"
  let ?matches = "filter (\<lambda>(k, v). values_match v (the (map_of g k)) default_tolerance) ?compared"
  have "length ?matches \<le> length ?compared" by (rule length_filter_le)
  then have "0 \<le> real (length ?matches) / real (length ?compared) \<and>
             real (length ?matches) / real (length ?compared) \<le> 1"
    by (rule ratio_bounds)
  then show ?thesis
    unfolding Some accuracy_rate_reference Let_def by (simp only: split: if_split) simp
qed

lemma evaluate_fields:
  assumes "evaluate fr self ar gt = Inr m"
  shows "semantic_error_rate m = calculate_semantic_error_rate ar"
    and "execution_success_rate m = calculate_execution_success_rate ar"
    and "empty_result_rate m = calculate_empty_result_rate ar"
    and "accuracy_rate m = calculate_accuracy_rate fr ar gt"
  using assms by (auto simp: evaluate_def Let_def split: sum.splits)

lemma determine_overall_pass_complete:
  assumes "map_of (thresholds self) ''semantic_error'' = Some t1"
    and "map_of (thresholds self) ''execution_success'' = Some t2"
    and "map_of (thresholds self) ''empty_result'' = Some t3"
    and "map_of (thresholds self) ''accuracy'' = Some t4"
  shows "determine_overall_pass self s x e a = Inr (s \<le> t1 \<and> x \<ge> t2 \<and> e \<le> t3 \<and> a \<ge> t4)"
  using assms by (simp add: determine_overall_pass_def threshold_def)

lemma evaluate_complete:
  assumes "map_of (thresholds self) ''semantic_error'' = Some t1"
    and "map_of (thresholds self) ''execution_success'' = Some t2"
    and "map_of (thresholds self) ''empty_result'' = Some t3"
    and "map_of (thresholds self) ''accuracy'' = Some t4"
  shows "evaluate fr self ar gt =
     Inr \<lparr>semantic_error_rate = calculate_semantic_error_rate ar,
          execution_success_rate = calculate_execution_success_rate ar,
          empty_result_rate = calculate_empty_result_rate ar,
          accuracy_rate = calculate_accuracy_rate fr ar gt,
          overall_pass =
            (calculate_semantic_error_rate ar \<le> t1 \<and>
             calculate_execution_success_rate ar \<ge> t2 \<and>
             calculate_empty_result_rate ar \<le> t3 \<and>
             calculate_accuracy_rate fr ar gt \<ge> t4)\<rparr>"
  by (simp add: evaluate_def Let_def determine_overall_pass_complete [OF assms])

lemma evaluate_default:
  "evaluate fr (init None) ar gt =
     Inr \<lparr>semantic_error_rate = calculate_semantic_error_rate ar,
          execution_success_rate = calculate_execution_success_rate ar,
          empty_result_rate = calculate_empty_result_rate ar,
          accuracy_rate = calculate_accuracy_rate fr ar gt,
          overall_pass =
            (calculate_semantic_error_rate ar \<le> 0.1 \<and>
             calculate_execution_success_rate ar \<ge> 0.8 \<and>
             calculate_empty_result_rate ar \<le> 0.2 \<and>
             calculate_accuracy_rate fr ar gt \<ge> 0.9)\<rparr>"
  by (rule evaluate_complete) (simp_all add: init_def default_thresholds_def)

lemma scenario_d_rates:
  fixes fr :: float_repr
  defines "ar \<equiv> \<lparr>analysis_query = ''daily active users'', mongodb_queries = [],
        calculation_results = [(''daily_active_users'', PNone)],
        execution_logs = [], timestamp = ''2025-01-01''\<rparr>"
  shows "calculate_semantic_error_rate ar = 0"
    and "calculate_execution_success_rate ar = 1"
    and "calculate_empty_result_rate ar = 1"
    and "calculate_accuracy_rate fr ar None = 1"
  by (simp_all add: ar_def calculate_semantic_error_rate_def calculate_execution_success_rate_def
      calculate_empty_result_rate_def count_where_def calculate_accuracy_rate_def
      calculate_consistency_score_def is_number_def
        number_below_def number_above_def lower_def is_upper_def consistency_words_def Let_def)

lemma no_error_field_successful:
  "''error'' \<notin> fst ` set entry \<Longrightarrow> log_successful entry"
  by (simp add: log_successful_def dict_get_def map_of_eq_None_iff [THEN iffD2])

section \<open>Matching the patterns\<close>

lemma lower_length: "lower u = lower w \<Longrightarrow> length u = length w"
  by (metis length_map lower_def)

lemma lit_prefix_append: "lower u = lower w \<Longrightarrow> lit_prefix w (u @ s)"
proof (induction w arbitrary: u)
  case Nil
  show ?case by simp
next
  case (Cons p w)
  then obtain c u' where u: "u = c # u'" by (cases u) (auto simp: lower_def)
  with Cons.prems have "lower_char c = lower_char p" "lower u' = lower w"
    by (simp_all add: lower_def)
  with Cons.IH [of u'] u show ?case by simp
qed

lemma rep_splits_Nil: "([], v) \<in> set (rep_splits cl 0 v)"
  by (cases v) simp_all

lemma rep_splits_append:
  "list_all (in_class cl) u \<Longrightarrow> n \<le> length u \<Longrightarrow> (u, v) \<in> set (rep_splits cl n (u @ v))"
proof (induction u arbitrary: n)
  case Nil
  then show ?case by (simp add: rep_splits_Nil)
next
  case (Cons c u)
  from Cons.prems have "list_all (in_class cl) u" "n - 1 \<le> length u" by simp_all
  then have "(u, v) \<in> set (rep_splits cl (n - 1) (u @ v))" by (rule Cons.IH)
  then have "(c # u, v) \<in> (\<lambda>(a, b). (c # a, b)) ` set (rep_splits cl (n - 1) (u @ v))"
    by force
  with Cons.prems show ?case by simp
qed

lemma rx_match_Lit:
  "lower u = lower w \<Longrightarrow> rx_match items g s \<Longrightarrow> rx_match (Lit w # items) g (u @ s)"
  using lower_length [of u w] by (simp add: lit_prefix_append)

lemma rx_match_Rep:
  "list_all (in_class cl) u \<Longrightarrow> n \<le> length u \<Longrightarrow> rx_match items g v \<Longrightarrow>
   rx_match (Rep cl n # items) g (u @ v)"
  using rep_splits_append [of cl u n v] by (auto simp: list_ex_iff)

lemma re_search_here: "rx_match p [] s \<Longrightarrow> re_search p s"
  by (cases s) simp_all

lemma re_search_append: "rx_match p [] s \<Longrightarrow> re_search p (a @ s)"
  by (induction a) (simp_all add: re_search_here)

lemma pattern_flags:
  "pattern \<in> set logical_error_patterns \<Longrightarrow> re_search pattern query \<Longrightarrow>
   has_semantic_error query ar"
  by (auto simp: has_semantic_error_def list_ex_iff)

lemma large_threshold_match:
  assumes "list_all is_space ws" and "8 \<le> n"
  shows "re_search [Lit ''>'', Rep Space 0, Rep (OneOf ''9'') 8]
           (a @ ''>'' @ ws @ replicate n (CHR ''9'') @ b)"
proof -
  have nines: "list_all (in_class (OneOf ''9'')) (replicate n (CHR ''9''))"
    by (simp add: list_all_iff)
  have spaces: "list_all (in_class Space) ws"
    using assms(1) by (simp add: list_all_iff)
  have "rx_match [] [] b" by simp
  then have "rx_match [Rep (OneOf ''9'') 8] [] (replicate n (CHR ''9'') @ b)"
    using assms(2) by (intro rx_match_Rep [OF nines]) simp_all
  then have "rx_match [Rep Space 0, Rep (OneOf ''9'') 8] [] (ws @ replicate n (CHR ''9'') @ b)"
    by (rule rx_match_Rep [OF spaces le0])
  then have "rx_match [Lit ''>'', Rep Space 0, Rep (OneOf ''9'') 8] []
               (''>'' @ ws @ replicate n (CHR ''9'') @ b)"
    by (rule rx_match_Lit [OF refl])
  then show ?thesis by (rule re_search_append)
qed

lemma duplicate_grouping_match:
  assumes "lower g = lower ''$group''" and "lower i = lower ''_id''" and "lower j = lower ''_id''"
    and "CHR 0x0A \<notin> set b" and "CHR 0x0A \<notin> set c"
  shows "re_search [Lit ''$group'', Rep Dot 0, Lit ''_id'', Rep Dot 0, Lit ''_id'']
           (a @ g @ b @ i @ c @ j @ d)"
proof -
  have b: "list_all (in_class Dot) b" and c: "list_all (in_class Dot) c"
    using assms(4,5) by (auto simp: list_all_iff)
  have "rx_match [] [] d" by simp
  then have "rx_match [Lit ''_id''] [] (j @ d)"
    by (rule rx_match_Lit [OF assms(3)])
  then have "rx_match [Rep Dot 0, Lit ''_id''] [] (c @ j @ d)"
    by (rule rx_match_Rep [OF c le0])
  then have "rx_match [Lit ''_id'', Rep Dot 0, Lit ''_id''] [] (i @ c @ j @ d)"
    by (rule rx_match_Lit [OF assms(2)])
  then have "rx_match [Rep Dot 0, Lit ''_id'', Rep Dot 0, Lit ''_id''] [] (b @ i @ c @ j @ d)"
    by (rule rx_match_Rep [OF b le0])
  then have "rx_match [Lit ''$group'', Rep Dot 0, Lit ''_id'', Rep Dot 0, Lit ''_id''] []
               (g @ b @ i @ c @ j @ d)"
    by (rule rx_match_Lit [OF assms(1)])
  then show ?thesis by (rule re_search_append)
qed

lemmas eval_text = lower_def is_upper_def is_word_def is_space_def

lemma patterns_nth:
  "logical_error_patterns ! 2 = [Lit ''>'', Rep Space 0, Rep (OneOf ''9'') 8]"
  "logical_error_patterns ! 4 = [Lit ''$group'', Rep Dot 0, Lit ''_id'', Rep Dot 0, Lit ''_id'']"
  by (simp_all add: logical_error_patterns_def)

lemma patterns_mem:
  "logical_error_patterns ! 2 \<in> set logical_error_patterns"
  "logical_error_patterns ! 4 \<in> set logical_error_patterns"
  by (simp_all add: logical_error_patterns_def)

section \<open>Substrings, the text of the results and the thresholds\<close>

lemma starts_with_iff: "starts_with w s \<longleftrightarrow> (\<exists>b. s = w @ b)"
  by (induction w s rule: starts_with.induct) auto

lemma contains_iff: "contains w s \<longleftrightarrow> (\<exists>a b. s = a @ w @ b)"
proof (induction s)
  case Nil
  show ?case by auto
next
  case (Cons c s)
  show ?case
  proof
    assume "contains w (c # s)"
    then consider "starts_with w (c # s)" | "contains w s" by (auto split: if_splits)
    then show "\<exists>a b. c # s = a @ w @ b"
    proof cases
      case 1
      then obtain b where "c # s = w @ b" by (auto simp: starts_with_iff)
      then have "c # s = [] @ w @ b" by simp
      then show ?thesis by blast
    next
      case 2
      with Cons.IH obtain a b where "s = a @ w @ b" by blast
      then have "c # s = (c # a) @ w @ b" by simp
      then show ?thesis by blast
    qed
  next
    assume "\<exists>a b. c # s = a @ w @ b"
    then obtain a b where ab: "c # s = a @ w @ b" by blast
    show "contains w (c # s)"
    proof (cases a)
      case Nil
      with ab have "starts_with w (c # s)" by (auto simp: starts_with_iff)
      then show ?thesis by simp
    next
      case (Cons x a')
      with ab have "s = a' @ w @ b" by simp
      with Cons.IH have "contains w s" by blast
      then show ?thesis by simp
    qed
  qed
qed

lemma contains_lower: "contains w s \<Longrightarrow> contains (lower w) (lower s)"
proof -
  assume "contains w s"
  then obtain a b where "s = a @ w @ b" by (auto simp: contains_iff)
  then have "lower s = lower a @ lower w @ lower b" by (simp add: lower_def)
  then show ?thesis unfolding contains_iff by blast
qed

lemma rate_words_lower: "word \<in> set rate_words \<Longrightarrow> lower word = word"
  by (auto simp: rate_words_def lower_def is_upper_def)

lemma rate_mismatch_flags:
  assumes "list_ex (\<lambda>word. contains word (lower (analysis_query ar))) rate_words"
    and "list_ex (\<lambda>(key, value). number_above value 100) (calculation_results ar)"
  shows "has_semantic_error query ar"
  using assms by (simp add: has_semantic_error_def check_result_query_mismatch_def)

lemma active_users_text:
  "py_str fr (PDict [(''active_users'', PInt (- 10))]) = ''{'active_users': -10}''"
  by (simp add: py_str_def repr_str_def repr_char_def show_int_def Let_def)

lemma active_users_accuracy:
  assumes "calculation_results ar = [(''active_users'', PInt (- 10))]"
  shows "calculate_accuracy_rate fr ar None = 1"
  by (simp add: calculate_accuracy_rate_def calculate_consistency_score_def assms is_number_def
      number_below_def number_above_def active_users_text consistency_words_def eval_text Let_def)

lemma user_count_accuracy:
  assumes "calculation_results ar = [(''user_count'', PInt (- 10))]"
  shows "calculate_accuracy_rate fr ar None = 0.8"
  by (simp add: calculate_accuracy_rate_def calculate_consistency_score_def assms is_number_def
      number_below_def number_above_def py_str_def repr_str_def repr_char_def show_int_def
      consistency_words_def eval_text Let_def)

lemma determine_overall_pass_first_missing:
  assumes "find (\<lambda>key. map_of (thresholds self) key = None)
             [''semantic_error'', ''execution_success'', ''empty_result'', ''accuracy''] = Some key"
  shows "determine_overall_pass self s x e a = Inl (KeyError key)"
  using assms
  by (auto simp: determine_overall_pass_def threshold_def Let_def split: if_splits option.splits)

section \<open>Comparing values with a reference\<close>
























section \<open>Results of any kind\<close>

lemma count_where_any_Inr:
  "(\<And>x. P x = Inr (Q x)) \<Longrightarrow> count_where_any P xs = Inr (length (filter Q xs))"
  by (induction xs) simp_all

lemma has_semantic_error_any_dict:
  "has_semantic_error_any query ar (PDict d)
     = Inr (has_semantic_error query (ar\<lparr>calculation_results := d\<rparr>))"
  by (simp add: has_semantic_error_any_def has_semantic_error_def py_items_def
      check_result_query_mismatch_def)

lemma evaluate_any_dict:
  "evaluate_any fr self ar (PDict d) gt = evaluate fr self (ar\<lparr>calculation_results := d\<rparr>) gt"
proof -
  let ?ar = "ar\<lparr>calculation_results := d\<rparr>"
  have s: "calculate_semantic_error_rate_any ar (PDict d) = Inr (calculate_semantic_error_rate ?ar)"
    by (simp add: calculate_semantic_error_rate_any_def calculate_semantic_error_rate_def
        count_where_any_Inr [OF has_semantic_error_any_dict] count_where_filter Let_def)
  have e: "calculate_empty_result_rate_any ar (PDict d) = Inr (calculate_empty_result_rate ?ar)"
    by (simp add: calculate_empty_result_rate_any_def calculate_empty_result_rate_def
        py_has_len_def py_items_def)
  have a: "calculate_accuracy_rate_any fr ar (PDict d) gt = Inr (calculate_accuracy_rate fr ?ar gt)"
    by (simp add: calculate_accuracy_rate_any_def py_items_def)
  have x: "calculate_execution_success_rate ?ar = calculate_execution_success_rate ar"
    by (simp add: calculate_execution_success_rate_def)
  show ?thesis
    by (simp add: evaluate_any_def evaluate_def s e a x Let_def)
qed

lemma py_items_not_dict: "type_of results \<noteq> TDict \<Longrightarrow> py_items results = Inl AttributeError"
  by (cases results) (simp_all add: py_items_def)

lemma has_semantic_error_any_not_dict:
  "type_of results \<noteq> TDict \<Longrightarrow>
   has_semantic_error_any query ar results = Inl AttributeError \<or>
   (\<exists>b. has_semantic_error_any query ar results = Inr b)"
  by (auto simp: has_semantic_error_any_def py_items_not_dict)

lemma count_where_any_error:
  assumes "\<And>x. P x = Inl AttributeError \<or> (\<exists>b. P x = Inr b)"
  shows "count_where_any P xs = Inl AttributeError \<or> (\<exists>n. count_where_any P xs = Inr n)"
proof (induction xs)
  case Nil
  show ?case by simp
next
  case (Cons x xs)
  from assms [of x] Cons.IH show ?case by (auto split: sum.splits)
qed

lemma semantic_any_not_dict:
  assumes "type_of results \<noteq> TDict"
  shows "calculate_semantic_error_rate_any ar results = Inl AttributeError \<or>
         (\<exists>s. calculate_semantic_error_rate_any ar results = Inr s)"
  using count_where_any_error [of "\<lambda>query. has_semantic_error_any query ar results"
      "mongodb_queries ar", OF has_semantic_error_any_not_dict [OF assms]]
  by (auto simp: calculate_semantic_error_rate_any_def)

lemma empty_any_not_dict:
  assumes "type_of results \<noteq> TDict"
  shows "calculate_empty_result_rate_any ar results = Inl AttributeError \<or>
         calculate_empty_result_rate_any ar results = Inl TypeError \<or>
         calculate_empty_result_rate_any ar results = Inr 1"
  by (simp add: calculate_empty_result_rate_any_def py_items_not_dict [OF assms])

lemma accuracy_any_not_dict:
  "type_of results \<noteq> TDict \<Longrightarrow> calculate_accuracy_rate_any fr ar results gt = Inl AttributeError"
  by (simp add: calculate_accuracy_rate_any_def py_items_not_dict)

lemma evaluate_any_not_dict:
  assumes "type_of results \<noteq> TDict"
  shows "evaluate_any fr self ar results gt = Inl AttributeError \<or>
         evaluate_any fr self ar results gt = Inl TypeError"
  using semantic_any_not_dict [OF assms, of ar] empty_any_not_dict [OF assms, of ar]
    accuracy_any_not_dict [OF assms, of fr ar gt]
  by (auto simp: evaluate_any_def Let_def)

section \<open>The claims\<close>

text \<open>
  C3. For every analysis record and every optional reference mapping, each of the four
  rates that \<open>evaluate\<close> returns lies in the closed interval from 0 to 1; the score of the
  path without reference, which subtracts penalties from 1, is floored at 0.
\<close>

theorem all_rates_in_unit_interval:
  assumes "evaluate fr self ar gt = Inr m"
  shows "0 \<le> semantic_error_rate m \<and> semantic_error_rate m \<le> 1 \<and>
         0 \<le> execution_success_rate m \<and> execution_success_rate m \<le> 1 \<and>
         0 \<le> empty_result_rate m \<and> empty_result_rate m \<le> 1 \<and>
         0 \<le> accuracy_rate m \<and> accuracy_rate m \<le> 1"
  using semantic_error_rate_bounds [of ar] execution_success_rate_bounds [of ar]
    empty_result_rate_bounds [of ar] accuracy_rate_bounds [of fr ar gt]
  by (simp add: evaluate_fields [OF assms])

text \<open>A record whose three fields all draw penalties (two negative numbers beside the
  word \<open>count\<close>, a value above ten million, three rates outside 0..100): the score
  1 - 0.2 - 0.1 - 0.2 - 0.3 - 0.3 - 0.3 is negative before the floor, and the accuracy
  rate is 0.\<close>

theorem all_rates_in_unit_interval_witness:
  "\<forall>fr. \<exists>m.
     evaluate fr (init None)
       \<lparr>analysis_query = ''how many users'', mongodb_queries = [''db.users.find({})''],
        calculation_results =
          [(''count_rate'', PInt (- 5)), (''error_rate'', PInt 20000000),
           (''rate'', PFloat NegInf)],
        execution_logs = [[(''status'', PStr ''success'')]], timestamp = ''2025-01-01''\<rparr>
       None = Inr m \<and>
     accuracy_rate m = 0 \<and>
     0 \<le> semantic_error_rate m \<and> semantic_error_rate m \<le> 1 \<and>
     0 \<le> execution_success_rate m \<and> execution_success_rate m \<le> 1 \<and>
     0 \<le> empty_result_rate m \<and> empty_result_rate m \<le> 1 \<and>
     0 \<le> accuracy_rate m \<and> accuracy_rate m \<le> 1"
proof
  fix fr
  let ?ar = "\<lparr>analysis_query = ''how many users'', mongodb_queries = [''db.users.find({})''],
        calculation_results =
          [(''count_rate'', PInt (- 5)), (''error_rate'', PInt 20000000),
           (''rate'', PFloat NegInf)],
        execution_logs = [[(''status'', PStr ''success'')]], timestamp = ''2025-01-01''\<rparr>"
  obtain m where m: "evaluate fr (init None) ?ar None = Inr m"
    by (simp add: evaluate_default)
  have "calculate_accuracy_rate fr ?ar None = 0"
    by (simp add: calculate_accuracy_rate_def calculate_consistency_score_def is_number_def
        number_below_def number_above_def py_str_def repr_str_def repr_char_def show_int_def
        lower_def is_upper_def consistency_words_def Let_def)
  then have "accuracy_rate m = 0"
    by (simp add: evaluate_fields(4) [OF m])
  with m all_rates_in_unit_interval [OF m]
  show "\<exists>m. evaluate fr (init None) ?ar None = Inr m \<and>
     accuracy_rate m = 0 \<and>
     0 \<le> semantic_error_rate m \<and> semantic_error_rate m \<le> 1 \<and>
     0 \<le> execution_success_rate m \<and> execution_success_rate m \<le> 1 \<and>
     0 \<le> empty_result_rate m \<and> empty_result_rate m \<le> 1 \<and>
     0 \<le> accuracy_rate m \<and> accuracy_rate m \<le> 1"
    by blast
qed

text \<open>
  C2. \<open>evaluate\<close> returns \<open>overall_pass\<close> true if and only if the four comparisons hold
  together: the semantic error rate is at most its threshold, the execution success rate
  at least its threshold, the empty result rate at most its threshold and the accuracy
  rate at least its threshold; one failing comparison makes \<open>overall_pass\<close> false. The
  thresholds are those of a mapping that has the four keys.
\<close>

theorem overall_pass_is_conjunction:
  assumes "map_of (thresholds self) ''semantic_error'' = Some t1"
    and "map_of (thresholds self) ''execution_success'' = Some t2"
    and "map_of (thresholds self) ''empty_result'' = Some t3"
    and "map_of (thresholds self) ''accuracy'' = Some t4"
  shows "\<exists>m. evaluate fr self ar gt = Inr m \<and>
           (overall_pass m \<longleftrightarrow>
              semantic_error_rate m \<le> t1 \<and> execution_success_rate m \<ge> t2 \<and>
              empty_result_rate m \<le> t3 \<and> accuracy_rate m \<ge> t4)"
  by (simp add: evaluate_complete [OF assms])

text \<open>Under the default thresholds, a record whose only result is \<open>None\<close> passes three
  comparisons and fails the one on the empty result rate: the verdict is false.\<close>

theorem overall_pass_is_conjunction_witness:
  "\<forall>fr. \<exists>m.
     evaluate fr (init None)
       \<lparr>analysis_query = ''daily active users'', mongodb_queries = [],
        calculation_results = [(''daily_active_users'', PNone)],
        execution_logs = [], timestamp = ''2025-01-01''\<rparr> None = Inr m \<and>
     semantic_error_rate m \<le> 0.1 \<and> execution_success_rate m \<ge> 0.8 \<and>
     \<not> empty_result_rate m \<le> 0.2 \<and> accuracy_rate m \<ge> 0.9 \<and>
     \<not> overall_pass m"
proof
  fix fr :: float_repr
  let ?ar = "\<lparr>analysis_query = ''daily active users'', mongodb_queries = [],
        calculation_results = [(''daily_active_users'', PNone)],
        execution_logs = [], timestamp = ''2025-01-01''\<rparr>"
  have th: "map_of (thresholds (init None)) ''semantic_error'' = Some 0.1"
    "map_of (thresholds (init None)) ''execution_success'' = Some 0.8"
    "map_of (thresholds (init None)) ''empty_result'' = Some 0.2"
    "map_of (thresholds (init None)) ''accuracy'' = Some 0.9"
    by (simp_all add: init_def default_thresholds_def)
  from overall_pass_is_conjunction [OF th, of fr ?ar None]
  obtain m where m: "evaluate fr (init None) ?ar None = Inr m"
    and p: "overall_pass m \<longleftrightarrow>
              semantic_error_rate m \<le> 0.1 \<and> execution_success_rate m \<ge> 0.8 \<and>
              empty_result_rate m \<le> 0.2 \<and> accuracy_rate m \<ge> 0.9"
    by blast
  have "semantic_error_rate m = 0" "execution_success_rate m = 1" "empty_result_rate m = 1"
    "accuracy_rate m = 1"
    using scenario_d_rates by (simp_all add: evaluate_fields [OF m])
  with m p show "\<exists>m. evaluate fr (init None) ?ar None = Inr m \<and>
     semantic_error_rate m \<le> 0.1 \<and> execution_success_rate m \<ge> 0.8 \<and>
     \<not> empty_result_rate m \<le> 0.2 \<and> accuracy_rate m \<ge> 0.9 \<and>
     \<not> overall_pass m"
    by auto
qed

text \<open>
  C10. An entry of the execution logs whose status is not \<open>"success"\<close> still counts as
  successful when it has no \<open>"error"\<close> field: for non-empty logs in which no entry has
  an \<open>"error"\<close> field, the execution success rate is 1, whatever the statuses say.
\<close>

theorem success_without_error_field:
  assumes "execution_logs ar \<noteq> []"
    and "list_all (\<lambda>entry. ''error'' \<notin> fst ` set entry) (execution_logs ar)"
    and "evaluate fr self ar gt = Inr m"
  shows "list_all log_successful (execution_logs ar) \<and> execution_success_rate m = 1"
proof -
  have all: "list_all log_successful (execution_logs ar)"
    using assms(2) by (auto simp: list_all_iff intro: no_error_field_successful)
  then have "count_where log_successful (execution_logs ar) = length (execution_logs ar)"
    by (rule count_where_all)
  with assms(1) have "calculate_execution_success_rate ar = 1"
    by (simp add: calculate_execution_success_rate_def Let_def)
  with all show ?thesis by (simp add: evaluate_fields(2) [OF assms(3)])
qed

text \<open>Two entries with the statuses \<open>"error"\<close> and \<open>"failed"\<close> and no \<open>"error"\<close>
  field.\<close>

theorem success_without_error_field_witness:
  "\<forall>fr. \<exists>m.
     evaluate fr (init None)
       \<lparr>analysis_query = ''active users'', mongodb_queries = [],
        calculation_results = [(''active_users'', PInt 7)],
        execution_logs =
          [[(''status'', PStr ''error''), (''message'', PStr ''Field not found'')],
           [(''status'', PStr ''failed'')]],
        timestamp = ''2025-01-01''\<rparr> None = Inr m \<and>
     \<not> py_eq (dict_get [(''status'', PStr ''error''), (''message'', PStr ''Field not found'')] ''status'')
         (PStr ''success'') \<and>
     \<not> py_eq (dict_get [(''status'', PStr ''failed'')] ''status'') (PStr ''success'') \<and>
     execution_success_rate m = 1"
proof
  fix fr :: float_repr
  let ?ar = "\<lparr>analysis_query = ''active users'', mongodb_queries = [],
        calculation_results = [(''active_users'', PInt 7)],
        execution_logs =
          [[(''status'', PStr ''error''), (''message'', PStr ''Field not found'')],
           [(''status'', PStr ''failed'')]],
        timestamp = ''2025-01-01''\<rparr>"
  obtain m where m: "evaluate fr (init None) ?ar None = Inr m"
    by (simp add: evaluate_default)
  have "execution_success_rate m = 1"
    using success_without_error_field [of ?ar fr "init None" None m] m by simp
  with m show "\<exists>m. evaluate fr (init None) ?ar None = Inr m \<and>
     \<not> py_eq (dict_get [(''status'', PStr ''error''), (''message'', PStr ''Field not found'')] ''status'')
         (PStr ''success'') \<and>
     \<not> py_eq (dict_get [(''status'', PStr ''failed'')] ''status'') (PStr ''success'') \<and>
     execution_success_rate m = 1"
    by (simp add: dict_get_def)
qed


text \<open>
  C1. A record whose only query is
  \<^verbatim>\<open>db.users.find({'user_id': {'$ne': '$user_id'}})\<close> is claimed to get the semantic
  error rate 1. The query has none of the characters \<open>! = < >\<close> the self-comparison
  pattern needs between the two occurrences of the field, and no other check applies: the
  evaluator does not flag it, and the rate is 0.
\<close>

theorem self_comparison_query_not_flagged:
  "\<not> has_semantic_error ''db.users.find({'user_id': {'$ne': '$user_id'}})''
       \<lparr>analysis_query = ''find the users'',
        mongodb_queries = [''db.users.find({'user_id': {'$ne': '$user_id'}})''],
        calculation_results = [(''users'', PInt 3)], execution_logs = [],
        timestamp = ''2025-01-01''\<rparr> \<and>
   evaluate fr (init None)
       \<lparr>analysis_query = ''find the users'',
        mongodb_queries = [''db.users.find({'user_id': {'$ne': '$user_id'}})''],
        calculation_results = [(''users'', PInt 3)], execution_logs = [],
        timestamp = ''2025-01-01''\<rparr> None
   = Inr \<lparr>semantic_error_rate = 0, execution_success_rate = 1, empty_result_rate = 0,
          accuracy_rate = 1, overall_pass = True\<rparr>"
proof -
  let ?q = "''db.users.find({'user_id': {'$ne': '$user_id'}})''"
  let ?ar = "\<lparr>analysis_query = ''find the users'',
        mongodb_queries = [?q],
        calculation_results = [(''users'', PInt 3)], execution_logs = [],
        timestamp = ''2025-01-01''\<rparr>"
  have h: "\<not> has_semantic_error ?q ?ar"
    by (simp add: has_semantic_error_def check_result_query_mismatch_def logical_error_patterns_def
      rate_words_def number_above_def number_below_def eval_text)
  then have s: "calculate_semantic_error_rate ?ar = 0"
    by (simp add: calculate_semantic_error_rate_def count_where_def)
  have x: "calculate_execution_success_rate ?ar = 1"
    by (simp add: calculate_execution_success_rate_def)
  have e: "calculate_empty_result_rate ?ar = 0"
    by (simp add: calculate_empty_result_rate_def count_where_def)
  have a: "calculate_accuracy_rate fr ?ar None = 1"
    by (simp add: calculate_accuracy_rate_def calculate_consistency_score_def is_number_def
        number_below_def number_above_def consistency_words_def eval_text Let_def)
  show ?thesis using h by (simp add: evaluate_default s x e a)
qed

text \<open>
  C5, as amended. Every query in which \<open>>\<close> is followed by optional white space and by
  eight or more characters \<open>9\<close> matches the third pattern and is classified as
  semantically erroneous.
\<close>

theorem eight_nines_after_greater_than_flagged:
  assumes "list_all is_space ws" and "8 \<le> n"
  shows "re_search (logical_error_patterns ! 2) (a @ ''>'' @ ws @ replicate n (CHR ''9'') @ b) \<and>
         has_semantic_error (a @ ''>'' @ ws @ replicate n (CHR ''9'') @ b) ar"
proof -
  have "re_search (logical_error_patterns ! 2) (a @ ''>'' @ ws @ replicate n (CHR ''9'') @ b)"
    unfolding patterns_nth by (rule large_threshold_match [OF assms])
  then show ?thesis using pattern_flags [OF patterns_mem(1)] by blast
qed

theorem eight_nines_after_greater_than_flagged_witness:
  "\<forall>ar. list_all is_space '' '' \<and> (8::nat) \<le> 8 \<and>
     re_search (logical_error_patterns ! 2) ''db.orders.find({$where: this.total > 99999999})'' \<and>
     has_semantic_error ''db.orders.find({$where: this.total > 99999999})'' ar"
proof
  fix ar
  have s: "list_all is_space '' ''" by (simp add: is_space_def)
  have n: "(8::nat) \<le> 8" by simp
  have q: "''db.orders.find({$where: this.total '' @ ''>'' @ '' '' @ replicate 8 (CHR ''9'') @ ''})''
         = ''db.orders.find({$where: this.total > 99999999})''"
    by (simp add: eval_nat_numeral)
  have "re_search (logical_error_patterns ! 2)
          (''db.orders.find({$where: this.total '' @ ''>'' @ '' '' @ replicate 8 (CHR ''9'') @ ''})'') \<and>
        has_semantic_error
          (''db.orders.find({$where: this.total '' @ ''>'' @ '' '' @ replicate 8 (CHR ''9'') @ ''})'') ar"
    by (rule eight_nines_after_greater_than_flagged [OF s n])
  then have "re_search (logical_error_patterns ! 2) ''db.orders.find({$where: this.total > 99999999})'' \<and>
     has_semantic_error ''db.orders.find({$where: this.total > 99999999})'' ar"
    by (simp only: q)
  with s n show "list_all is_space '' '' \<and> (8::nat) \<le> 8 \<and>
     re_search (logical_error_patterns ! 2) ''db.orders.find({$where: this.total > 99999999})'' \<and>
     has_semantic_error ''db.orders.find({$where: this.total > 99999999})'' ar"
    by blast
qed

text \<open>C5 as stated fails: a query in which \<open>>\<close> is followed by the nine digits
  \<open>123456789\<close> does not match the third pattern and is not flagged.\<close>

theorem nine_digits_after_greater_than_not_flagged:
  "\<not> re_search (logical_error_patterns ! 2) ''db.orders.find({$where: this.total > 123456789})'' \<and>
   \<not> has_semantic_error ''db.orders.find({$where: this.total > 123456789})''
       \<lparr>analysis_query = ''orders above a threshold'',
        mongodb_queries = [''db.orders.find({$where: this.total > 123456789})''],
        calculation_results = [(''orders'', PInt 12)], execution_logs = [],
        timestamp = ''2025-01-01''\<rparr>"
  by (simp add: has_semantic_error_def check_result_query_mismatch_def logical_error_patterns_def
      rate_words_def number_above_def number_below_def eval_text)

text \<open>
  C9, as amended. Every query in which \<open>$group\<close> is followed, on the same line, by two
  occurrences of \<open>_id\<close> (all three up to case) matches the fifth pattern and is classified
  as semantically erroneous; so is the single-key grouping query
  \<^verbatim>\<open>db.care_313.aggregate([{'$group': {'_id': '$user_id'}}])\<close>, because \<open>user_id\<close>
  contains \<open>_id\<close>.
\<close>

theorem group_with_two_ids_on_one_line_flagged:
  assumes "lower g = ''$group''" and "lower i = ''_id''" and "lower j = ''_id''"
    and "CHR 0x0A \<notin> set b" and "CHR 0x0A \<notin> set c"
  shows "re_search (logical_error_patterns ! 4) (a @ g @ b @ i @ c @ j @ d) \<and>
         has_semantic_error (a @ g @ b @ i @ c @ j @ d) ar"
proof -
  have low: "lower ''$group'' = ''$group''" "lower ''_id'' = ''_id''"
    by (simp_all add: eval_text)
  have "re_search (logical_error_patterns ! 4) (a @ g @ b @ i @ c @ j @ d)"
    unfolding patterns_nth
    by (rule duplicate_grouping_match) (simp_all add: assms low)
  then show ?thesis using pattern_flags [OF patterns_mem(2)] by blast
qed

theorem group_with_two_ids_on_one_line_flagged_witness:
  "\<forall>ar. has_semantic_error ''db.care_313.aggregate([{'$group': {'_id': '$user_id'}}])'' ar"
proof
  fix ar
  let ?a = "''db.care_313.aggregate([{'' @ [CHR 0x27]"
  let ?b = "[CHR 0x27] @ '': {'' @ [CHR 0x27]"
  let ?c = "[CHR 0x27] @ '': '' @ [CHR 0x27] @ ''$user''"
  let ?d = "[CHR 0x27] @ ''}}])''"
  have low: "lower ''$group'' = ''$group''" "lower ''_id'' = ''_id''"
    by (simp_all add: eval_text)
  have nl: "CHR 0x0A \<notin> set ?b" "CHR 0x0A \<notin> set ?c"
    by simp_all
  have q: "?a @ ''$group'' @ ?b @ ''_id'' @ ?c @ ''_id'' @ ?d
         = ''db.care_313.aggregate([{'$group': {'_id': '$user_id'}}])''"
    by simp
  have "re_search (logical_error_patterns ! 4) (?a @ ''$group'' @ ?b @ ''_id'' @ ?c @ ''_id'' @ ?d) \<and>
        has_semantic_error (?a @ ''$group'' @ ?b @ ''_id'' @ ?c @ ''_id'' @ ?d) ar"
    by (rule group_with_two_ids_on_one_line_flagged [OF low(1) low(2) low(2) nl])
  then show "has_semantic_error ''db.care_313.aggregate([{'$group': {'_id': '$user_id'}}])'' ar"
    by (simp only: q)
qed

text \<open>C9 as stated fails: the pattern's \<open>.\<close> does not match a line feed, so a query
  with a line feed between \<open>$group\<close> and the two occurrences of \<open>_id\<close> is not flagged.\<close>

theorem group_and_ids_on_two_lines_not_flagged:
  "(\<exists>a b c d. ''db.sales.aggregate([{$group:'' @ [CHR 0x0A] @ ''  {_id: $user_id}}])''
       = a @ ''$group'' @ b @ ''_id'' @ c @ ''_id'' @ d) \<and>
   \<not> re_search (logical_error_patterns ! 4)
       (''db.sales.aggregate([{$group:'' @ [CHR 0x0A] @ ''  {_id: $user_id}}])'') \<and>
   \<not> has_semantic_error (''db.sales.aggregate([{$group:'' @ [CHR 0x0A] @ ''  {_id: $user_id}}])'')
       \<lparr>analysis_query = ''sales by user'',
        mongodb_queries = [''db.sales.aggregate([{$group:'' @ [CHR 0x0A] @ ''  {_id: $user_id}}])''],
        calculation_results = [(''users'', PInt 12)], execution_logs = [],
        timestamp = ''2025-01-01''\<rparr>"
proof -
  have "''db.sales.aggregate([{$group:'' @ [CHR 0x0A] @ ''  {_id: $user_id}}])''
       = ''db.sales.aggregate([{'' @ ''$group'' @ ('':'' @ [CHR 0x0A] @ ''  {'') @ ''_id''
           @ '': $user'' @ ''_id'' @ ''}}])''"
    by simp
  then have "\<exists>a b c d. ''db.sales.aggregate([{$group:'' @ [CHR 0x0A] @ ''  {_id: $user_id}}])''
       = a @ ''$group'' @ b @ ''_id'' @ c @ ''_id'' @ d"
    by blast
  then show ?thesis
    by (simp add: has_semantic_error_def check_result_query_mismatch_def logical_error_patterns_def
      rate_words_def number_above_def number_below_def eval_text)
qed

text \<open>
  C8. If the question of the record contains one of the rate words (the two Korean
  words, \<open>percent\<close>, \<open>rate\<close>) and one numeric value of the results exceeds 100, then
  every query is flagged as semantically erroneous whatever its content, and for a record
  with at least one query the semantic error rate is 1.
\<close>

theorem rate_keyword_and_value_above_100_flags_all:
  assumes "list_ex (\<lambda>word. contains word (analysis_query ar)) rate_words"
    and "list_ex (\<lambda>(key, value). number_above value 100) (calculation_results ar)"
    and "mongodb_queries ar \<noteq> []"
    and "evaluate fr self ar gt = Inr m"
  shows "(\<forall>query. has_semantic_error query ar) \<and> semantic_error_rate m = 1"
proof -
  from assms(1) obtain word where w: "word \<in> set rate_words" "contains word (analysis_query ar)"
    by (auto simp: list_ex_iff)
  then have "contains word (lower (analysis_query ar))"
    using contains_lower [of word "analysis_query ar"] by (simp add: rate_words_lower)
  with w(1) have "list_ex (\<lambda>word. contains word (lower (analysis_query ar))) rate_words"
    by (auto simp: list_ex_iff)
  then have all: "has_semantic_error query ar" for query
    using assms(2) by (rule rate_mismatch_flags)
  then have "count_where (\<lambda>query. has_semantic_error query ar) (mongodb_queries ar)
             = length (mongodb_queries ar)"
    by (simp add: count_where_filter)
  with assms(3) have "calculate_semantic_error_rate ar = 1"
    by (simp add: calculate_semantic_error_rate_def Let_def)
  with all show ?thesis by (simp add: evaluate_fields(1) [OF assms(4)])
qed

text \<open>A record whose question contains \<open>rate\<close> and whose results hold the float 150:
  its two queries match no pattern, and the rate is 1.\<close>

theorem rate_keyword_and_value_above_100_flags_all_witness:
  "\<forall>fr. \<exists>m.
     evaluate fr (init None)
       \<lparr>analysis_query = ''conversion rate per channel'',
        mongodb_queries = [''db.visits.find({})'', ''db.orders.find({channel: 1})''],
        calculation_results = [(''conversion'', PFloat (Finite 150)), (''channels'', PInt 4)],
        execution_logs = [], timestamp = ''2025-01-01''\<rparr> None = Inr m \<and>
     \<not> list_ex (\<lambda>pattern. re_search pattern ''db.visits.find({})'') logical_error_patterns \<and>
     semantic_error_rate m = 1"
proof
  fix fr :: float_repr
  let ?ar = "\<lparr>analysis_query = ''conversion rate per channel'',
        mongodb_queries = [''db.visits.find({})'', ''db.orders.find({channel: 1})''],
        calculation_results = [(''conversion'', PFloat (Finite 150)), (''channels'', PInt 4)],
        execution_logs = [], timestamp = ''2025-01-01''\<rparr>"
  obtain m where m: "evaluate fr (init None) ?ar None = Inr m"
    by (simp add: evaluate_default)
  have 1: "list_ex (\<lambda>word. contains word (analysis_query ?ar)) rate_words"
    by (simp add: rate_words_def)
  have 2: "list_ex (\<lambda>(key, value). number_above value 100) (calculation_results ?ar)"
    by (simp add: number_above_def)
  have 3: "mongodb_queries ?ar \<noteq> []" by simp
  have p: "\<not> list_ex (\<lambda>pattern. re_search pattern ''db.visits.find({})'') logical_error_patterns"
    by (simp add: logical_error_patterns_def eval_text)
  from rate_keyword_and_value_above_100_flags_all [OF 1 2 3 m]
  have "semantic_error_rate m = 1" by blast
  with m p show "\<exists>m. evaluate fr (init None) ?ar None = Inr m \<and>
     \<not> list_ex (\<lambda>pattern. re_search pattern ''db.visits.find({})'') logical_error_patterns \<and>
     semantic_error_rate m = 1"
    by blast
qed

text \<open>
  C4, as amended. For a record with the results \<open>{"active_users": -10}\<close> and no
  reference, the path without reference subtracts nothing: the penalty of 0.2 for a
  negative numeric field applies only when the text of the results mapping contains
  \<open>count\<close>, which \<^verbatim>\<open>{'active_users': -10}\<close> does not; the accuracy rate is 1.
\<close>

theorem negative_field_without_count_keeps_accuracy:
  assumes "calculation_results ar = [(''active_users'', PInt (- 10))]"
    and "evaluate fr self ar None = Inr m"
  shows "py_str fr (PDict (calculation_results ar)) = ''{'active_users': -10}'' \<and>
         \<not> contains ''count'' (py_str fr (PDict (calculation_results ar))) \<and>
         accuracy_rate m = 1"
  using active_users_accuracy [OF assms(1), of fr]
  by (simp add: assms(1) active_users_text evaluate_fields(4) [OF assms(2)])

theorem negative_field_without_count_keeps_accuracy_witness:
  "\<forall>fr. \<exists>m.
     evaluate fr (init None)
       \<lparr>analysis_query = ''number of active users'', mongodb_queries = [],
        calculation_results = [(''active_users'', PInt (- 10))],
        execution_logs = [], timestamp = ''2025-01-01''\<rparr> None = Inr m \<and>
     accuracy_rate m = 1"
proof
  fix fr :: float_repr
  let ?ar = "\<lparr>analysis_query = ''number of active users'', mongodb_queries = [],
        calculation_results = [(''active_users'', PInt (- 10))],
        execution_logs = [], timestamp = ''2025-01-01''\<rparr>"
  obtain m where m: "evaluate fr (init None) ?ar None = Inr m"
    by (simp add: evaluate_default)
  have r: "calculation_results ?ar = [(''active_users'', PInt (- 10))]" by simp
  from negative_field_without_count_keeps_accuracy [OF r m]
  have "accuracy_rate m = 1" by blast
  with m show "\<exists>m. evaluate fr (init None) ?ar None = Inr m \<and> accuracy_rate m = 1"
    by blast
qed

text \<open>C4 as stated fails: no evaluation of such a record returns the accuracy rate
  0.8.\<close>

theorem negative_field_without_count_not_penalised:
  "\<not> (\<exists>fr self ar m.
         calculation_results ar = [(''active_users'', PInt (- 10))] \<and>
         evaluate fr self ar None = Inr m \<and> accuracy_rate m = 0.8)"
proof
  assume "\<exists>fr self ar m.
         calculation_results ar = [(''active_users'', PInt (- 10))] \<and>
         evaluate fr self ar None = Inr m \<and> accuracy_rate m = 0.8"
  then obtain fr self ar m where r: "calculation_results ar = [(''active_users'', PInt (- 10))]"
    and e: "evaluate fr self ar None = Inr m" and a: "accuracy_rate m = 0.8"
    by blast
  from active_users_accuracy [OF r, of fr] have "accuracy_rate m = 1"
    by (simp add: evaluate_fields(4) [OF e])
  with a show False by simp
qed



text \<open>
  C7, as amended. A value that is not a mapping, passed as the results, makes the
  evaluation fail with \<open>AttributeError\<close> or \<open>TypeError\<close>, the errors of the first
  operation that reads it as a mapping; and an empty threshold mapping is replaced by the
  defaults, so that the evaluation is the one with no threshold mapping given.
\<close>

theorem non_mapping_results_and_empty_thresholds:
  "(type_of results \<noteq> TDict \<longrightarrow>
      evaluate_any fr self ar results gt = Inl AttributeError \<or>
      evaluate_any fr self ar results gt = Inl TypeError) \<and>
   thresholds (init (Some [])) = default_thresholds \<and>
   evaluate_any fr (init (Some [])) ar results gt = evaluate_any fr (init None) ar results gt"
proof -
  have "init (Some []) = init None" by (simp add: init_def)
  then show ?thesis
    using evaluate_any_not_dict [of results fr self ar gt] by (simp add: init_def)
qed

text \<open>A list as results fails with \<open>AttributeError\<close> or \<open>TypeError\<close>; the number 11 as
  results, with a query that reads no result, fails with \<open>TypeError\<close> at \<open>len\<close>.\<close>

theorem non_mapping_results_and_empty_thresholds_witness:
  "\<forall>fr self gt.
     type_of (PList [PInt 3, PInt 8]) \<noteq> TDict \<and>
     (evaluate_any fr self
        \<lparr>analysis_query = ''users and chats'', mongodb_queries = [''db.users.find({})''],
         calculation_results = [], execution_logs = [], timestamp = ''2025-01-01''\<rparr>
        (PList [PInt 3, PInt 8]) gt = Inl AttributeError \<or>
      evaluate_any fr self
        \<lparr>analysis_query = ''users and chats'', mongodb_queries = [''db.users.find({})''],
         calculation_results = [], execution_logs = [], timestamp = ''2025-01-01''\<rparr>
        (PList [PInt 3, PInt 8]) gt = Inl TypeError) \<and>
     evaluate_any fr self
        \<lparr>analysis_query = ''users and chats'', mongodb_queries = [''db.users.find({})''],
         calculation_results = [], execution_logs = [], timestamp = ''2025-01-01''\<rparr>
        (PInt 11) gt = Inl TypeError"
proof (intro allI)
  fix fr :: float_repr and self :: evaluator and gt :: "pydict option"
  let ?ar = "\<lparr>analysis_query = ''users and chats'', mongodb_queries = [''db.users.find({})''],
         calculation_results = [], execution_logs = [], timestamp = ''2025-01-01''\<rparr>"
  have t: "type_of (PList [PInt 3, PInt 8]) \<noteq> TDict" by simp
  from non_mapping_results_and_empty_thresholds [of "PList [PInt 3, PInt 8]" fr self ?ar gt] t
  have d: "evaluate_any fr self ?ar (PList [PInt 3, PInt 8]) gt = Inl AttributeError \<or>
           evaluate_any fr self ?ar (PList [PInt 3, PInt 8]) gt = Inl TypeError"
    by blast
  have q: "has_semantic_error_any ''db.users.find({})'' ?ar (PInt 11) = Inr False"
    by (simp add: has_semantic_error_any_def logical_error_patterns_def rate_words_def eval_text)
  have "evaluate_any fr self ?ar (PInt 11) gt = Inl TypeError"
    by (simp add: evaluate_any_def calculate_semantic_error_rate_any_def q
        calculate_empty_result_rate_any_def py_has_len_def Let_def)
  with t d show "type_of (PList [PInt 3, PInt 8]) \<noteq> TDict \<and>
     (evaluate_any fr self ?ar (PList [PInt 3, PInt 8]) gt = Inl AttributeError \<or>
      evaluate_any fr self ?ar (PList [PInt 3, PInt 8]) gt = Inl TypeError) \<and>
     evaluate_any fr self ?ar (PInt 11) gt = Inl TypeError"
    by blast
qed

text \<open>C7 as stated fails: with the empty threshold mapping the evaluation of a record
  returns its metrics under the defaults, and with a list as results it fails with
  \<open>AttributeError\<close>, which is not \<open>InvalidInputError\<close>.\<close>

theorem contract_violations_not_InvalidInputError:
  "(\<forall>fr. evaluate_any fr (init (Some []))
          \<lparr>analysis_query = ''daily active users'', mongodb_queries = [],
           calculation_results = [], execution_logs = [], timestamp = ''2025-01-01''\<rparr>
          (PDict [(''daily_active_users'', PInt 1847)]) None
        = Inr \<lparr>semantic_error_rate = 0, execution_success_rate = 1, empty_result_rate = 0,
               accuracy_rate = 1, overall_pass = True\<rparr>) \<and>
   (\<forall>fr self. evaluate_any fr self
          \<lparr>analysis_query = ''daily active users'', mongodb_queries = [],
           calculation_results = [], execution_logs = [], timestamp = ''2025-01-01''\<rparr>
          (PList [PInt 1847]) None
        = Inl AttributeError) \<and>
   AttributeError \<noteq> InvalidInputError"
proof -
  let ?ar = "\<lparr>analysis_query = ''daily active users'', mongodb_queries = [],
           calculation_results = [], execution_logs = [], timestamp = ''2025-01-01''\<rparr>"
  let ?d = "[(''daily_active_users'', PInt 1847)]"
  have i: "init (Some []) = init None" by (simp add: init_def)
  have s: "calculate_semantic_error_rate (?ar\<lparr>calculation_results := ?d\<rparr>) = 0"
    by (simp add: calculate_semantic_error_rate_def)
  have x: "calculate_execution_success_rate (?ar\<lparr>calculation_results := ?d\<rparr>) = 1"
    by (simp add: calculate_execution_success_rate_def)
  have e: "calculate_empty_result_rate (?ar\<lparr>calculation_results := ?d\<rparr>) = 0"
    by (simp add: calculate_empty_result_rate_def count_where_def)
  have a: "calculate_accuracy_rate fr (?ar\<lparr>calculation_results := ?d\<rparr>) None = 1" for fr
    by (simp add: calculate_accuracy_rate_def calculate_consistency_score_def is_number_def
        number_below_def number_above_def consistency_words_def eval_text Let_def)
  have 1: "evaluate_any fr (init (Some [])) ?ar (PDict ?d) None
        = Inr \<lparr>semantic_error_rate = 0, execution_success_rate = 1, empty_result_rate = 0,
               accuracy_rate = 1, overall_pass = True\<rparr>" for fr
    unfolding i evaluate_any_dict evaluate_default s x e a by simp
  have 2: "evaluate_any fr self ?ar (PList [PInt 1847]) None = Inl AttributeError" for fr self
    by (simp add: evaluate_any_def calculate_semantic_error_rate_any_def
        calculate_empty_result_rate_any_def py_has_len_def py_items_def Let_def)
  from 1 2 show ?thesis by simp
qed

end
